theory Spec2Isabelle
  imports Main "HOL-Library.Sublist"
begin

section \<open>Data model\<close>

text \<open>
  Strings are lists of characters; one \<^typ>\<open>char\<close> stands for one code unit of the
  source's strings (all literals of the source fit into the range of \<^typ>\<open>char\<close>).
\<close>

datatype role = citizen | authority

text \<open>
  Modelled from the spec: the row type of the \<open>profiles\<close> table. The source takes it from
  \<open>lib/database.types\<close>, which is not among the source files; the columns are the ones
  the spec lists for the table (id, email, full_name, phone, role, is_deleted, deleted_at),
  with phone and deleted_at nullable.
\<close>

record profile =
  profile_id :: string
  email :: string
  full_name :: string
  phone :: "string option"
  role :: role
  is_deleted :: bool
  deleted_at :: "string option"

text \<open>
  The backend's \<open>User\<close> and \<open>Session\<close> objects. The source reads \<open>session.user\<close> and
  \<open>user.id\<close> only. The handler tests \<open>session?.user\<close>, so the user of a session is
  kept optional here.
\<close>

record user =
  user_id :: string

record session =
  session_user :: "user option"

text \<open>
  An error object of the backend: the source reads its \<open>message\<close>, which may be missing.
\<close>

datatype backend_error = BackendError "string option"

section \<open>Session Manager (AuthContext.tsx)\<close>

text \<open>The four \<open>useState\<close> cells of \<open>AuthProvider\<close>, with their initial values.\<close>

record auth_state =
  user :: "user option"
  profile :: "profile option"
  session :: "session option"
  loading :: bool

definition initial_auth_state :: auth_state where
  "initial_auth_state = \<lparr>user = None, profile = None, session = None, loading = True\<rparr>"

text \<open>
  \<open>session?.user ?? null\<close>: the user of the session, absent when the session is.
\<close>

definition session_user_of :: "session option \<Rightarrow> user option" where
  "session_user_of s = (case s of None \<Rightarrow> None | Some ss \<Rightarrow> session_user ss)"

text \<open>
  \<open>loadProfile(userId)\<close>. The backend's answer to
  \<open>from('profiles').select('*').eq('id', userId).maybeSingle()\<close> is the parameter
  \<open>fetch\<close>: \<open>Inl\<close> is \<open>{error}\<close>, \<open>Inr data\<close> is the row or null. On an error the
  \<open>catch\<close> block only logs; \<open>finally\<close> clears \<open>loading\<close> on both paths.
\<close>

definition loadProfile ::
  "(string \<Rightarrow> backend_error + profile option) \<Rightarrow> string \<Rightarrow> auth_state \<Rightarrow> auth_state" where
  "loadProfile fetch userId st =
     (case fetch userId of
        Inl err \<Rightarrow> st\<lparr>loading := False\<rparr>
      | Inr data \<Rightarrow> st\<lparr>profile := data, loading := False\<rparr>)"

text \<open>
  The callback of \<open>getSession().then\<close> that runs once on mount.
\<close>

definition getSession_then ::
  "(string \<Rightarrow> backend_error + profile option) \<Rightarrow> session option \<Rightarrow> auth_state \<Rightarrow> auth_state" where
  "getSession_then fetch sess st =
     (let st1 = st\<lparr>session := sess, user := session_user_of sess\<rparr>
      in case session_user_of sess of
           Some u \<Rightarrow> loadProfile fetch (user_id u) st1
         | None \<Rightarrow> st1\<lparr>loading := False\<rparr>)"

text \<open>
  The handler registered with \<open>onAuthStateChange\<close>, run to completion for one
  notification, the awaited \<open>loadProfile\<close> included. Two handlers whose profile
  queries overlap in time are outside this model.
\<close>

definition onAuthStateChange ::
  "(string \<Rightarrow> backend_error + profile option) \<Rightarrow> session option \<Rightarrow> auth_state \<Rightarrow> auth_state" where
  "onAuthStateChange fetch sess st =
     (let st1 = st\<lparr>session := sess, user := session_user_of sess\<rparr>
      in case session_user_of sess of
           Some u \<Rightarrow> loadProfile fetch (user_id u) st1
         | None \<Rightarrow> st1\<lparr>profile := None, loading := False\<rparr>)"

section \<open>Sign-up (AuthContext.tsx, \<open>signUp\<close>)\<close>

text \<open>
  A JavaScript \<open>Error\<close> with its message: what \<open>signUp\<close> throws to its caller.
\<close>

datatype js_error = Error string

fun message :: "backend_error \<Rightarrow> string option" where
  "message (BackendError m) = m"

text \<open>
  The two message literals of \<open>signUp\<close>. The first is the message of the error thrown
  for an e-mail that is already registered; its two accented letters are the code units
  0xF3 and 0xE1.
\<close>

definition duplicate_message :: string where
  "duplicate_message =
     ''Este correo electr'' @ [CHR 0xF3] @ ''nico ya est'' @ [CHR 0xE1] @ '' registrado''"

definition default_message :: string where
  "default_message = ''Error al registrarse''"

text \<open>
  The \<open>catch\<close> block: \<open>throw new Error(error.message || 'Error al registrarse')\<close>.
  A missing or empty message is falsy.
\<close>

definition rethrow :: "string option \<Rightarrow> js_error" where
  "rethrow m =
     (case m of
        Some s \<Rightarrow> if s \<noteq> [] then Error s else Error default_message
      | None \<Rightarrow> Error default_message)"

text \<open>The row that \<open>select('id, is_deleted')\<close> returns.\<close>

record existing_profile =
  existing_id :: string
  existing_is_deleted :: bool

text \<open>
  The object passed to \<open>update\<close>: a partial row, one optional entry per column.
  \<open>None\<close> means that the column is not named in the object.
\<close>

record profile_patch =
  set_profile_id :: "string option"
  set_email :: "string option"
  set_full_name :: "string option"
  set_phone :: "string option option"
  set_role :: "role option"
  set_is_deleted :: "bool option"
  set_deleted_at :: "string option option"

text \<open>The object passed to \<open>insert\<close>: the five columns the source names.\<close>

record profile_insert =
  insert_id :: string
  insert_email :: string
  insert_full_name :: string
  insert_phone :: "string option"
  insert_role :: role

text \<open>The calls \<open>signUp\<close> makes on the backend, in the order it makes them.\<close>

datatype request =
    SelectProfileByEmail string
  | AuthSignUp string string
  | UpdateProfile profile_patch string
  | InsertProfile profile_insert

fun is_mutation :: "request \<Rightarrow> bool" where
  "is_mutation (SelectProfileByEmail e) = False"
| "is_mutation (AuthSignUp e p) = True"
| "is_mutation (UpdateProfile p i) = True"
| "is_mutation (InsertProfile r) = True"

fun is_insert :: "request \<Rightarrow> bool" where
  "is_insert (InsertProfile r) = True"
| "is_insert rq = False"

text \<open>
  The backend as \<open>signUp\<close> sees it: the answer to each of the four calls. For the two
  reads of \<open>{data, error}\<close> \<open>Inl\<close> is the error; for the two writes the answer
  is the error, if any.
\<close>

record backend =
  select_by_email :: "string \<Rightarrow> backend_error + existing_profile option"
  auth_signUp :: "string \<Rightarrow> string \<Rightarrow> backend_error + user option"
  update_profile :: "profile_patch \<Rightarrow> string \<Rightarrow> backend_error option"
  insert_profile :: "profile_insert \<Rightarrow> backend_error option"

text \<open>\<open>phone || null\<close>: a missing or empty phone is stored as null.\<close>

definition phone_or_null :: "string option \<Rightarrow> string option" where
  "phone_or_null phone' =
     (case phone' of Some s \<Rightarrow> if s \<noteq> [] then Some s else None | None \<Rightarrow> None)"

text \<open>The object literal of the \<open>update\<close> call (lines 96 to 101).\<close>

definition revive_patch :: "string \<Rightarrow> string option \<Rightarrow> profile_patch" where
  "revive_patch fullName phone' =
     \<lparr>set_profile_id = None, set_email = None, set_full_name = Some fullName,
      set_phone = Some (phone_or_null phone'), set_role = None,
      set_is_deleted = Some False, set_deleted_at = Some None\<rparr>"

text \<open>The object literal of the \<open>insert\<close> call (lines 108 to 114).\<close>

definition fresh_row :: "user \<Rightarrow> string \<Rightarrow> string \<Rightarrow> string option \<Rightarrow> profile_insert" where
  "fresh_row u email' fullName phone' =
     \<lparr>insert_id = user_id u, insert_email = email', insert_full_name = fullName,
      insert_phone = phone_or_null phone', insert_role = citizen\<rparr>"

text \<open>The end of a write: \<open>if (updateError) throw updateError\<close>, and the same for insert.\<close>

definition finish :: "request list \<Rightarrow> backend_error option \<Rightarrow> request list \<times> (js_error + unit)" where
  "finish calls err =
     (case err of Some e \<Rightarrow> (calls, Inl (rethrow (message e))) | None \<Rightarrow> (calls, Inr ()))"

text \<open>
  \<open>signUp(email, password, fullName, phone?)\<close>: the calls made on the backend and the
  outcome, \<open>Inl\<close> for the error thrown to the caller. The error thrown for a registered
  e-mail passes through the same \<open>catch\<close> block as the backend's errors.
\<close>

definition signUp ::
  "backend \<Rightarrow> string \<Rightarrow> string \<Rightarrow> string \<Rightarrow> string option \<Rightarrow> request list \<times> (js_error + unit)" where
  "signUp b email' password fullName phone' =
     (let c1 = [SelectProfileByEmail email'] in
      case select_by_email b email' of
        Inl checkError \<Rightarrow> (c1, Inl (rethrow (message checkError)))
      | Inr existingProfile \<Rightarrow>
          if (case existingProfile of Some e \<Rightarrow> \<not> existing_is_deleted e | None \<Rightarrow> False)
          then (c1, Inl (rethrow (Some duplicate_message)))
          else
            (let c2 = c1 @ [AuthSignUp email' password] in
             case auth_signUp b email' password of
               Inl err \<Rightarrow> (c2, Inl (rethrow (message err)))
             | Inr None \<Rightarrow> (c2, Inr ())
             | Inr (Some u) \<Rightarrow>
                 (case existingProfile of
                    Some e \<Rightarrow>
                      if existing_is_deleted e
                      then finish (c2 @ [UpdateProfile (revive_patch fullName phone') (existing_id e)])
                             (update_profile b (revive_patch fullName phone') (existing_id e))
                      else finish (c2 @ [InsertProfile (fresh_row u email' fullName phone')])
                             (insert_profile b (fresh_row u email' fullName phone'))
                  | None \<Rightarrow>
                      finish (c2 @ [InsertProfile (fresh_row u email' fullName phone')])
                        (insert_profile b (fresh_row u email' fullName phone')))))"

text \<open>
  Modelled from the spec: the backend's row storage, \<open>update(table, predicate,
  partial-record)\<close>, which is outside the repository. A patch overwrites the columns it
  names and leaves the others; \<open>update(patch).eq('id', i)\<close> patches the rows whose
  identifier is \<open>i\<close>.
\<close>

definition apply_patch :: "profile_patch \<Rightarrow> profile \<Rightarrow> profile" where
  "apply_patch p r =
     \<lparr>profile_id = (case set_profile_id p of Some v \<Rightarrow> v | None \<Rightarrow> profile_id r),
      email = (case set_email p of Some v \<Rightarrow> v | None \<Rightarrow> email r),
      full_name = (case set_full_name p of Some v \<Rightarrow> v | None \<Rightarrow> full_name r),
      phone = (case set_phone p of Some v \<Rightarrow> v | None \<Rightarrow> phone r),
      role = (case set_role p of Some v \<Rightarrow> v | None \<Rightarrow> role r),
      is_deleted = (case set_is_deleted p of Some v \<Rightarrow> v | None \<Rightarrow> is_deleted r),
      deleted_at = (case set_deleted_at p of Some v \<Rightarrow> v | None \<Rightarrow> deleted_at r)\<rparr>"

definition update_rows :: "profile_patch \<Rightarrow> string \<Rightarrow> profile list \<Rightarrow> profile list" where
  "update_rows p i rows = map (\<lambda>r. if profile_id r = i then apply_patch p r else r) rows"

section \<open>Incident Browser (IncidentList)\<close>

datatype status = pending | in_progress | resolved | rejected

datatype priority = low | medium | high | urgent

text \<open>
  Modelled from the spec: the row types of the \<open>incident_categories\<close> and \<open>incidents\<close>
  tables, which the source takes from \<open>lib/database.types\<close> (not among the source files).
  The columns are the ones the spec lists; the two joined rows are the fields
  \<open>incident_categories\<close> and \<open>profiles\<close> that the source's \<open>Incident\<close> type adds. The
  source tests \<open>incident.profiles\<close> before reading it, so the joined profile is optional.
\<close>

record category =
  category_id :: string
  category_name :: string
  color :: string

record incident =
  incident_id :: string
  title :: string
  description :: string
  address :: "string option"
  status :: status
  priority :: priority
  incident_date :: string
  created_at :: string
  incident_user_id :: string
  incident_category_id :: string
  incident_categories :: category
  profiles :: "profile option"

text \<open>The value of a status as the string that \<open>===\<close> compares with the filter.\<close>

fun status_string :: "status \<Rightarrow> string" where
  "status_string pending = ''pending''"
| "status_string in_progress = ''in_progress''"
| "status_string resolved = ''resolved''"
| "status_string rejected = ''rejected''"

fun statusLabels :: "status \<Rightarrow> string" where
  "statusLabels pending = ''Pendiente''"
| "statusLabels in_progress = ''En Proceso''"
| "statusLabels resolved = ''Resuelta''"
| "statusLabels rejected = ''Rechazada''"

fun statusColors :: "status \<Rightarrow> string" where
  "statusColors pending = ''bg-yellow-100 text-yellow-800''"
| "statusColors in_progress = ''bg-blue-100 text-blue-800''"
| "statusColors resolved = ''bg-green-100 text-green-800''"
| "statusColors rejected = ''bg-red-100 text-red-800''"

fun priorityLabels :: "priority \<Rightarrow> string" where
  "priorityLabels low = ''Baja''"
| "priorityLabels medium = ''Media''"
| "priorityLabels high = ''Alta''"
| "priorityLabels urgent = ''Urgente''"

fun priorityColors :: "priority \<Rightarrow> string" where
  "priorityColors low = ''bg-gray-100 text-gray-800''"
| "priorityColors medium = ''bg-blue-100 text-blue-800''"
| "priorityColors high = ''bg-orange-100 text-orange-800''"
| "priorityColors urgent = ''bg-red-100 text-red-800''"

subsection \<open>Filtering\<close>

text \<open>
  \<open>s.includes(t)\<close>: \<open>t\<close> occurs in \<open>s\<close> as a contiguous run, at some position.
\<close>

fun includes_string :: "string \<Rightarrow> string \<Rightarrow> bool" where
  "includes_string [] t = (t = [])"
| "includes_string (c # cs) t = (prefix t (c # cs) \<or> includes_string cs t)"

text \<open>
  The callback of the text filter (lines 85 to 88). \<open>toLowerCase\<close> is the language's
  own lower-casing of a string and is a parameter here. \<open>address?.\<close> stops at an absent
  address, and the undefined it yields is falsy.
\<close>

definition matchesSearch :: "(string \<Rightarrow> string) \<Rightarrow> string \<Rightarrow> incident \<Rightarrow> bool" where
  "matchesSearch toLowerCase searchTerm i =
     (includes_string (toLowerCase (title i)) (toLowerCase searchTerm) \<or>
      includes_string (toLowerCase (description i)) (toLowerCase searchTerm) \<or>
      (case address i of
         None \<Rightarrow> False
       | Some a \<Rightarrow> includes_string (toLowerCase a) (toLowerCase searchTerm)))"

text \<open>
  \<open>filterIncidents\<close>: the list it passes to \<open>setFilteredIncidents\<close>. An empty search term
  is falsy, so the text filter is skipped for it; the status filter is skipped for the
  sentinel \<open>all\<close>.
\<close>

definition filterIncidents ::
  "(string \<Rightarrow> string) \<Rightarrow> incident list \<Rightarrow> string \<Rightarrow> string \<Rightarrow> incident list" where
  "filterIncidents toLowerCase incidents searchTerm statusFilter =
     (let filtered = incidents;
          filtered = (if searchTerm \<noteq> []
                      then filter (matchesSearch toLowerCase searchTerm) filtered
                      else filtered);
          filtered = (if statusFilter \<noteq> ''all''
                      then filter (\<lambda>i. status_string (status i) = statusFilter) filtered
                      else filtered)
      in filtered)"

text \<open>
  A lower-casing of the letters A to Z that leaves every other character as it is: an
  instance of the parameter, for evaluating the filter on concrete lists.
\<close>

definition lower_char :: "char \<Rightarrow> char" where
  "lower_char c =
     (let n = (of_char c :: nat)
      in if 65 \<le> n \<and> n \<le> 90 then char_of (n + 32) else c)"

definition ascii_lower :: "string \<Rightarrow> string" where
  "ascii_lower s = map lower_char s"

subsection \<open>Rendering of a row\<close>

text \<open>
  The rendered output: text, and elements with a tag, attributes and children.
\<close>

datatype node = Text string | Elem string "(string \<times> string) list" "node list"

text \<open>All text of a node, in document order.\<close>

fun texts :: "node \<Rightarrow> string list" where
  "texts (Text s) = [s]"
| "texts (Elem tag attrs children) = concat (map texts children)"

definition badge :: string where
  "badge = ''px-3 py-1 rounded-full text-xs font-semibold''"

text \<open>
  The element that \<open>filteredIncidents.map\<close> builds for one incident (lines 145 to 194),
  for the viewer's \<open>profile\<close> of the Session Manager. \<open>formatDate\<close> stands for
  \<open>new Date(_).toLocaleDateString('es-ES', _)\<close>. A condition \<open>c && element\<close> that is
  falsy renders nothing; an empty address is falsy as an absent one is. The last child is
  the reporter line: \<open>profile?.role === 'authority' && incident.profiles && _\<close>.
\<close>

definition render_row :: "(string \<Rightarrow> string) \<Rightarrow> profile option \<Rightarrow> incident \<Rightarrow> node" where
  "render_row formatDate viewer i =
     Elem ''div''
       [(''key'', incident_id i),
        (''className'', ''bg-white border border-gray-200 rounded-lg p-6 hover:shadow-md transition-shadow cursor-pointer'')]
       [Elem ''div'' [(''className'', ''flex items-start justify-between mb-3'')]
          [Elem ''div'' [(''className'', ''flex-1'')]
             [Elem ''div'' [(''className'', ''flex items-center gap-3 mb-2'')]
                [Elem ''span''
                   [(''className'', badge),
                    (''style.backgroundColor'', color (incident_categories i) @ ''20''),
                    (''style.color'', color (incident_categories i))]
                   [Text (category_name (incident_categories i))],
                 Elem ''span'' [(''className'', badge @ '' '' @ statusColors (status i))]
                   [Text (statusLabels (status i))],
                 Elem ''span'' [(''className'', badge @ '' '' @ priorityColors (priority i))]
                   [Text (priorityLabels (priority i))]],
              Elem ''h3'' [(''className'', ''text-lg font-semibold text-gray-900 mb-2'')]
                [Text (title i)],
              Elem ''p'' [(''className'', ''text-gray-600 text-sm line-clamp-2'')]
                [Text (description i)]]],
        Elem ''div'' [(''className'', ''flex items-center gap-6 text-sm text-gray-500'')]
          ((case address i of
              None \<Rightarrow> []
            | Some a \<Rightarrow>
                if a \<noteq> []
                then [Elem ''div'' [(''className'', ''flex items-center gap-1'')]
                        [Elem ''MapPin'' [(''className'', ''w-4 h-4'')] [],
                         Elem ''span'' [] [Text a]]]
                else []) @
           [Elem ''div'' [(''className'', ''flex items-center gap-1'')]
              [Elem ''Clock'' [(''className'', ''w-4 h-4'')] [],
               Elem ''span'' [] [Text (formatDate (incident_date i))]]] @
           (case viewer of
              None \<Rightarrow> []
            | Some p \<Rightarrow>
                if role p = authority
                then (case profiles i of
                        None \<Rightarrow> []
                      | Some reporter \<Rightarrow>
                          [Elem ''div'' [(''className'', ''text-xs'')]
                             [Text ''Reportado por: '', Text (full_name reporter)]])
                else []))]"

section \<open>Sample data\<close>

text \<open>Concrete values on which the definitions above are evaluated below.\<close>

definition ana :: profile where
  "ana = \<lparr>profile_id = ''u-ana'', email = ''ana@chepen.pe'', full_name = ''Ana Ruiz'',
     phone = None, role = authority, is_deleted = False, deleted_at = None\<rparr>"

definition luis :: profile where
  "luis = \<lparr>profile_id = ''u-luis'', email = ''luis@chepen.pe'', full_name = ''Luis Paz'',
     phone = Some ''955'', role = citizen, is_deleted = False, deleted_at = None\<rparr>"

definition ana_signed_in :: auth_state where
  "ana_signed_in =
     \<lparr>user = Some \<lparr>user_id = ''u-ana''\<rparr>, profile = Some ana,
      session = Some \<lparr>session_user = Some \<lparr>user_id = ''u-ana''\<rparr>\<rparr>, loading = False\<rparr>"

definition failing_fetch :: "string \<Rightarrow> backend_error + profile option" where
  "failing_fetch userId = Inl (BackendError (Some ''Failed to fetch''))"

definition pothole :: incident where
  "pothole =
     \<lparr>incident_id = ''i1'', title = ''Bache en la Av. Grau'', description = ''Hueco profundo'',
      address = Some ''Av. Grau 120'', status = pending, priority = high,
      incident_date = ''2024-05-01T10:00:00Z'', created_at = ''2024-05-01T10:05:00Z'',
      incident_user_id = ''u-luis'', incident_category_id = ''c1'',
      incident_categories = \<lparr>category_id = ''c1'', category_name = ''Vias'', color = ''#ff0000''\<rparr>,
      profiles = Some luis\<rparr>"

definition streetlight :: incident where
  "streetlight =
     \<lparr>incident_id = ''i2'', title = ''Poste sin luz'', description = ''Farola apagada'',
      address = None, status = resolved, priority = low,
      incident_date = ''2024-04-20T21:00:00Z'', created_at = ''2024-04-20T21:30:00Z'',
      incident_user_id = ''u-ana'', incident_category_id = ''c2'',
      incident_categories = \<lparr>category_id = ''c2'', category_name = ''Alumbrado'', color = ''#00ff00''\<rparr>,
      profiles = Some ana\<rparr>"

definition active_backend :: backend where
  "active_backend =
     \<lparr>select_by_email = (\<lambda>e. Inr (Some \<lparr>existing_id = ''p1'', existing_is_deleted = False\<rparr>)),
      auth_signUp = (\<lambda>e p. Inr (Some \<lparr>user_id = ''u2''\<rparr>)),
      update_profile = (\<lambda>p i. None),
      insert_profile = (\<lambda>r. None)\<rparr>"

definition deleted_backend :: backend where
  "deleted_backend =
     \<lparr>select_by_email = (\<lambda>e. Inr (Some \<lparr>existing_id = ''p1'', existing_is_deleted = True\<rparr>)),
      auth_signUp = (\<lambda>e p. Inr (Some \<lparr>user_id = ''u2''\<rparr>)),
      update_profile = (\<lambda>p i. None),
      insert_profile = (\<lambda>r. None)\<rparr>"

definition old_row :: profile where
  "old_row = \<lparr>profile_id = ''p1'', email = ''ana@chepen.pe'', full_name = ''Ana'',
     phone = Some ''900'', role = authority, is_deleted = True, deleted_at = Some ''2024-01-01''\<rparr>"

definition other_row :: profile where
  "other_row = \<lparr>profile_id = ''p7'', email = ''luis@chepen.pe'', full_name = ''Luis'',
     phone = None, role = citizen, is_deleted = False, deleted_at = None\<rparr>"

section \<open>Properties of the Session Manager\<close>

lemma loadProfile_loading: "loading (loadProfile fetch uid st) = False"
  by (simp add: loadProfile_def split: sum.splits)

lemma getSession_then_loading: "loading (getSession_then fetch sess st) = False"
  by (simp add: getSession_then_def Let_def loadProfile_loading split: option.splits)

lemma onAuthStateChange_loading: "loading (onAuthStateChange fetch sess st) = False"
  by (simp add: onAuthStateChange_def Let_def loadProfile_loading split: option.splits)

lemma onAuthStateChange_session:
  "session (onAuthStateChange fetch sess st) = sess \<and>
   user (onAuthStateChange fetch sess st) = session_user_of sess"
  by (simp add: onAuthStateChange_def Let_def loadProfile_def split: option.splits sum.splits)

lemma onAuthStateChange_fetched:
  "session_user_of sess = Some u \<Longrightarrow> fetch (user_id u) = Inr data \<Longrightarrow>
   profile (onAuthStateChange fetch sess st) = data"
  by (simp add: onAuthStateChange_def Let_def loadProfile_def)

lemma onAuthStateChange_fetch_failed:
  "session_user_of sess = Some u \<Longrightarrow> fetch (user_id u) = Inl err \<Longrightarrow>
   profile (onAuthStateChange fetch sess st) = profile st"
  by (simp add: onAuthStateChange_def Let_def loadProfile_def)

text \<open>
  Claim C9. A notification that carries no session leaves the profile absent and the
  loading flag false, whatever the state before and whatever the backend would answer.
\<close>

theorem onAuthStateChange_no_session:
  "profile (onAuthStateChange fetch None st) = None \<and>
   loading (onAuthStateChange fetch None st) = False"
  by (simp add: onAuthStateChange_def session_user_of_def)

text \<open>
  Claim C1. After a transition the profile should belong to the new session, and a
  failed re-fetch should leave the profile absent. The handler does not do that: Ana is
  signed in with her profile loaded, a notification arrives with a session of Luis, and
  the profile query fails. The handler ends with Luis as the user, the loading flag
  false, and Ana's profile still in place.
\<close>

theorem onAuthStateChange_stale_profile:
  "profile (onAuthStateChange failing_fetch
              (Some \<lparr>session_user = Some \<lparr>user_id = ''u-luis''\<rparr>\<rparr>) ana_signed_in) = Some ana \<and>
   user (onAuthStateChange failing_fetch
              (Some \<lparr>session_user = Some \<lparr>user_id = ''u-luis''\<rparr>\<rparr>) ana_signed_in) =
     Some \<lparr>user_id = ''u-luis''\<rparr> \<and>
   loading (onAuthStateChange failing_fetch
              (Some \<lparr>session_user = Some \<lparr>user_id = ''u-luis''\<rparr>\<rparr>) ana_signed_in) = False"
  by (simp add: onAuthStateChange_def session_user_of_def loadProfile_def failing_fetch_def
      ana_signed_in_def)

section \<open>Properties of sign-up\<close>

lemma duplicate_message_nonempty: "duplicate_message \<noteq> []"
  by (simp add: duplicate_message_def)

lemma rethrow_duplicate: "rethrow (Some duplicate_message) = Error duplicate_message"
  by (simp add: rethrow_def duplicate_message_nonempty)

lemma fst_finish: "fst (finish calls err) = calls"
  by (simp add: finish_def split: option.splits)

lemma signUp_revive:
  assumes "select_by_email b email' = Inr (Some e)"
    and "existing_is_deleted e"
    and "auth_signUp b email' password = Inr (Some u)"
  shows "signUp b email' password fullName phone' =
         finish [SelectProfileByEmail email', AuthSignUp email' password,
                 UpdateProfile (revive_patch fullName phone') (existing_id e)]
           (update_profile b (revive_patch fullName phone') (existing_id e))"
  using assms by (simp add: signUp_def)

lemma update_rows_revive:
  "update_rows (revive_patch fullName phone') i rows =
     map (\<lambda>r. if profile_id r = i
              then r\<lparr>full_name := fullName, phone := phone_or_null phone',
                     is_deleted := False, deleted_at := None\<rparr>
              else r) rows"
  by (simp add: update_rows_def apply_patch_def revive_patch_def)

text \<open>
  Claim C2. A profile with the e-mail exists for \<open>signUp\<close> when the look-up by e-mail
  returns it. When the look-up returns a profile that is not soft-deleted,
  \<open>signUp\<close> throws the error of the registered e-mail, and the look-up is the only call
  it has made on the backend: no registration of credentials, no insert, no update.
\<close>

theorem signUp_duplicate:
  assumes "select_by_email b email' = Inr (Some e)"
    and "\<not> existing_is_deleted e"
  shows "snd (signUp b email' password fullName phone') = Inl (Error duplicate_message) \<and>
         fst (signUp b email' password fullName phone') = [SelectProfileByEmail email'] \<and>
         filter is_mutation (fst (signUp b email' password fullName phone')) = []"
  using assms by (simp add: signUp_def rethrow_duplicate)

theorem signUp_duplicate_witness:
  "select_by_email active_backend ''ana@chepen.pe'' = Inr (Some \<lparr>existing_id = ''p1'', existing_is_deleted = False\<rparr>) \<and>
   \<not> existing_is_deleted \<lparr>existing_id = ''p1'', existing_is_deleted = False\<rparr> \<and>
   snd (signUp active_backend ''ana@chepen.pe'' ''secret'' ''Ana'' None) = Inl (Error duplicate_message) \<and>
   fst (signUp active_backend ''ana@chepen.pe'' ''secret'' ''Ana'' None) = [SelectProfileByEmail ''ana@chepen.pe''] \<and>
   filter is_mutation (fst (signUp active_backend ''ana@chepen.pe'' ''secret'' ''Ana'' None)) = []"
proof -
  have h1: "select_by_email active_backend ''ana@chepen.pe'' =
      Inr (Some \<lparr>existing_id = ''p1'', existing_is_deleted = False\<rparr>)"
    by (simp add: active_backend_def)
  have h2: "\<not> existing_is_deleted \<lparr>existing_id = ''p1'', existing_is_deleted = False\<rparr>"
    by simp
  show ?thesis
    using h1 h2 signUp_duplicate [OF h1 h2, of "''secret''" "''Ana''" None] by simp
qed

text \<open>
  Claim C3. When the look-up returns a soft-deleted profile and the registration of the
  credentials returns a user, \<open>signUp\<close> makes exactly one write on the profiles: an update
  of the row with the identifier of the profile found, which sets \<open>is_deleted\<close> to false,
  \<open>deleted_at\<close> to null, \<open>full_name\<close> to the new name and \<open>phone\<close> to the new phone (null
  when the phone is missing or empty). It makes no insert. On any table the update
  changes rows in place: the same rows in the same order, the patched ones with the four
  columns overwritten.
\<close>

theorem signUp_revives_in_place:
  assumes "select_by_email b email' = Inr (Some e)"
    and "existing_is_deleted e"
    and "auth_signUp b email' password = Inr (Some u)"
  shows "fst (signUp b email' password fullName phone') =
           [SelectProfileByEmail email', AuthSignUp email' password,
            UpdateProfile (revive_patch fullName phone') (existing_id e)] \<and>
         set_full_name (revive_patch fullName phone') = Some fullName \<and>
         set_phone (revive_patch fullName phone') = Some (phone_or_null phone') \<and>
         set_is_deleted (revive_patch fullName phone') = Some False \<and>
         set_deleted_at (revive_patch fullName phone') = Some None \<and>
         filter is_insert (fst (signUp b email' password fullName phone')) = [] \<and>
         update_rows (revive_patch fullName phone') (existing_id e) rows =
           map (\<lambda>r. if profile_id r = existing_id e
                    then r\<lparr>full_name := fullName, phone := phone_or_null phone',
                           is_deleted := False, deleted_at := None\<rparr>
                    else r) rows"
proof -
  have calls: "fst (signUp b email' password fullName phone') =
      [SelectProfileByEmail email', AuthSignUp email' password,
       UpdateProfile (revive_patch fullName phone') (existing_id e)]"
    by (simp add: signUp_revive [OF assms] fst_finish)
  have fields: "set_full_name (revive_patch fullName phone') = Some fullName \<and>
      set_phone (revive_patch fullName phone') = Some (phone_or_null phone') \<and>
      set_is_deleted (revive_patch fullName phone') = Some False \<and>
      set_deleted_at (revive_patch fullName phone') = Some None"
    by (simp add: revive_patch_def)
  have no_insert: "filter is_insert (fst (signUp b email' password fullName phone')) = []"
    by (simp add: calls)
  show ?thesis
    using calls fields no_insert update_rows_revive by blast
qed

theorem signUp_revives_in_place_witness:
  "select_by_email deleted_backend ''ana@chepen.pe'' =
     Inr (Some \<lparr>existing_id = ''p1'', existing_is_deleted = True\<rparr>) \<and>
   existing_is_deleted \<lparr>existing_id = ''p1'', existing_is_deleted = True\<rparr> \<and>
   auth_signUp deleted_backend ''ana@chepen.pe'' ''secret'' = Inr (Some \<lparr>user_id = ''u2''\<rparr>) \<and>
   fst (signUp deleted_backend ''ana@chepen.pe'' ''secret'' ''Ana Ruiz'' (Some ''955'')) =
     [SelectProfileByEmail ''ana@chepen.pe'', AuthSignUp ''ana@chepen.pe'' ''secret'',
      UpdateProfile (revive_patch ''Ana Ruiz'' (Some ''955'')) ''p1''] \<and>
   update_rows (revive_patch ''Ana Ruiz'' (Some ''955'')) ''p1'' [other_row, old_row] =
     [other_row,
      \<lparr>profile_id = ''p1'', email = ''ana@chepen.pe'', full_name = ''Ana Ruiz'',
       phone = Some ''955'', role = authority, is_deleted = False, deleted_at = None\<rparr>]"
proof -
  have h1: "select_by_email deleted_backend ''ana@chepen.pe'' =
      Inr (Some \<lparr>existing_id = ''p1'', existing_is_deleted = True\<rparr>)"
    by (simp add: deleted_backend_def)
  have h2: "existing_is_deleted \<lparr>existing_id = ''p1'', existing_is_deleted = True\<rparr>"
    by simp
  have h3: "auth_signUp deleted_backend ''ana@chepen.pe'' ''secret'' = Inr (Some \<lparr>user_id = ''u2''\<rparr>)"
    by (simp add: deleted_backend_def)
  show ?thesis
    using h1 h2 h3
      signUp_revives_in_place [OF h1 h2 h3, of "''Ana Ruiz''" "Some ''955''" "[other_row, old_row]"]
    by (simp add: old_row_def other_row_def phone_or_null_def)
qed

text \<open>
  Claim C10. In the revival the only writes are the registration of the credentials and
  the update, and the update names neither \<open>email\<close> nor \<open>role\<close> nor the identifier: on
  any table the e-mails, the roles and the identifiers of all rows are what they were, so
  a revived profile with role \<open>authority\<close> keeps it.
\<close>

theorem signUp_revive_frame:
  assumes "select_by_email b email' = Inr (Some e)"
    and "existing_is_deleted e"
    and "auth_signUp b email' password = Inr (Some u)"
  shows "filter is_mutation (fst (signUp b email' password fullName phone')) =
           [AuthSignUp email' password,
            UpdateProfile (revive_patch fullName phone') (existing_id e)] \<and>
         set_email (revive_patch fullName phone') = None \<and>
         set_role (revive_patch fullName phone') = None \<and>
         set_profile_id (revive_patch fullName phone') = None \<and>
         map email (update_rows (revive_patch fullName phone') (existing_id e) rows) = map email rows \<and>
         map role (update_rows (revive_patch fullName phone') (existing_id e) rows) = map role rows \<and>
         map profile_id (update_rows (revive_patch fullName phone') (existing_id e) rows) =
           map profile_id rows"
proof -
  have calls: "filter is_mutation (fst (signUp b email' password fullName phone')) =
      [AuthSignUp email' password, UpdateProfile (revive_patch fullName phone') (existing_id e)]"
    by (simp add: signUp_revive [OF assms] fst_finish)
  have fields: "set_email (revive_patch fullName phone') = None \<and>
      set_role (revive_patch fullName phone') = None \<and>
      set_profile_id (revive_patch fullName phone') = None"
    by (simp add: revive_patch_def)
  have frame: "map email (update_rows (revive_patch fullName phone') (existing_id e) rows) = map email rows \<and>
      map role (update_rows (revive_patch fullName phone') (existing_id e) rows) = map role rows \<and>
      map profile_id (update_rows (revive_patch fullName phone') (existing_id e) rows) = map profile_id rows"
    by (simp add: update_rows_revive)
  show ?thesis
    using calls fields frame by blast
qed

theorem signUp_revive_frame_witness:
  "select_by_email deleted_backend ''ana@chepen.pe'' =
     Inr (Some \<lparr>existing_id = ''p1'', existing_is_deleted = True\<rparr>) \<and>
   existing_is_deleted \<lparr>existing_id = ''p1'', existing_is_deleted = True\<rparr> \<and>
   auth_signUp deleted_backend ''ana@chepen.pe'' ''secret'' = Inr (Some \<lparr>user_id = ''u2''\<rparr>) \<and>
   filter is_mutation (fst (signUp deleted_backend ''ana@chepen.pe'' ''secret'' ''Ana Ruiz'' None)) =
     [AuthSignUp ''ana@chepen.pe'' ''secret'', UpdateProfile (revive_patch ''Ana Ruiz'' None) ''p1''] \<and>
   map role (update_rows (revive_patch ''Ana Ruiz'' None) ''p1'' [other_row, old_row]) =
     [citizen, authority] \<and>
   map email (update_rows (revive_patch ''Ana Ruiz'' None) ''p1'' [other_row, old_row]) =
     [''luis@chepen.pe'', ''ana@chepen.pe'']"
proof -
  have h1: "select_by_email deleted_backend ''ana@chepen.pe'' =
      Inr (Some \<lparr>existing_id = ''p1'', existing_is_deleted = True\<rparr>)"
    by (simp add: deleted_backend_def)
  have h2: "existing_is_deleted \<lparr>existing_id = ''p1'', existing_is_deleted = True\<rparr>"
    by simp
  have h3: "auth_signUp deleted_backend ''ana@chepen.pe'' ''secret'' = Inr (Some \<lparr>user_id = ''u2''\<rparr>)"
    by (simp add: deleted_backend_def)
  show ?thesis
    using h1 h2 h3
      signUp_revive_frame [OF h1 h2 h3, of "''Ana Ruiz''" None "[other_row, old_row]"]
    by (simp add: old_row_def other_row_def)
qed

section \<open>Properties of the filter\<close>

lemma includes_string_sublist: "includes_string s t \<longleftrightarrow> sublist t s"
  by (induction s) (auto simp: sublist_Cons_right)

lemma status_string_not_all: "status_string v \<noteq> ''all''"
  by (cases v) simp_all

lemma status_string_inj: "status_string v = status_string w \<longleftrightarrow> v = w"
  by (cases v; cases w) simp_all

lemma filterIncidents_filter:
  "filterIncidents toLowerCase L s sf =
     filter (\<lambda>i. (s = [] \<or> matchesSearch toLowerCase s i) \<and>
                 (sf = ''all'' \<or> status_string (status i) = sf)) L"
  by (simp add: filterIncidents_def Let_def)

lemma matchesSearch_sublist:
  "matchesSearch toLowerCase s i \<longleftrightarrow>
     sublist (toLowerCase s) (toLowerCase (title i)) \<or>
     sublist (toLowerCase s) (toLowerCase (description i)) \<or>
     (case address i of None \<Rightarrow> False | Some a \<Rightarrow> sublist (toLowerCase s) (toLowerCase a))"
  by (simp add: matchesSearch_def includes_string_sublist split: option.splits)

lemma ascii_lower_Nil: "ascii_lower [] = []"
  by (simp add: ascii_lower_def)

text \<open>
  Claim C4. With the status filter at \<open>all\<close>, an incident of the list is kept exactly when
  the lower-cased search term occurs in its lower-cased title, description or address,
  where an absent address never matches. For an incident without address and a non-empty
  term that leaves the title and the description. An empty term keeps every incident.
  The lower-casing is any function that maps the empty string to itself.
\<close>

theorem filterIncidents_text:
  assumes "toLowerCase [] = []"
  shows "(i \<in> set (filterIncidents toLowerCase L s ''all'') \<longleftrightarrow>
            i \<in> set L \<and>
            (sublist (toLowerCase s) (toLowerCase (title i)) \<or>
             sublist (toLowerCase s) (toLowerCase (description i)) \<or>
             (case address i of None \<Rightarrow> False
              | Some a \<Rightarrow> sublist (toLowerCase s) (toLowerCase a)))) \<and>
         (address i = None \<and> s \<noteq> [] \<longrightarrow>
            (i \<in> set (filterIncidents toLowerCase L s ''all'') \<longleftrightarrow>
               i \<in> set L \<and>
               (sublist (toLowerCase s) (toLowerCase (title i)) \<or>
                sublist (toLowerCase s) (toLowerCase (description i))))) \<and>
         (i \<in> set (filterIncidents toLowerCase L [] ''all'') \<longleftrightarrow> i \<in> set L)"
proof (intro conjI impI)
  show "i \<in> set (filterIncidents toLowerCase L s ''all'') \<longleftrightarrow>
          i \<in> set L \<and>
          (sublist (toLowerCase s) (toLowerCase (title i)) \<or>
           sublist (toLowerCase s) (toLowerCase (description i)) \<or>
           (case address i of None \<Rightarrow> False
            | Some a \<Rightarrow> sublist (toLowerCase s) (toLowerCase a)))"
  proof (cases "s = []")
    case True
    then show ?thesis using assms by (simp add: filterIncidents_filter)
  next
    case False
    then show ?thesis by (simp add: filterIncidents_filter matchesSearch_sublist)
  qed
next
  assume "address i = None \<and> s \<noteq> []"
  then show "i \<in> set (filterIncidents toLowerCase L s ''all'') \<longleftrightarrow>
          i \<in> set L \<and>
          (sublist (toLowerCase s) (toLowerCase (title i)) \<or>
           sublist (toLowerCase s) (toLowerCase (description i)))"
    by (simp add: filterIncidents_filter matchesSearch_sublist)
next
  show "i \<in> set (filterIncidents toLowerCase L [] ''all'') \<longleftrightarrow> i \<in> set L"
    by (simp add: filterIncidents_filter)
qed

theorem filterIncidents_text_witness:
  "ascii_lower [] = [] \<and>
   address streetlight = None \<and> ''GRAU'' \<noteq> [] \<and>
   filterIncidents ascii_lower [pothole, streetlight] ''GRAU'' ''all'' = [pothole] \<and>
   (sublist (ascii_lower ''GRAU'') (ascii_lower (title pothole)) \<or>
    sublist (ascii_lower ''GRAU'') (ascii_lower (description pothole)) \<or>
    (case address pothole of None \<Rightarrow> False
     | Some a \<Rightarrow> sublist (ascii_lower ''GRAU'') (ascii_lower a))) \<and>
   \<not> (sublist (ascii_lower ''GRAU'') (ascii_lower (title streetlight)) \<or>
      sublist (ascii_lower ''GRAU'') (ascii_lower (description streetlight)))"
proof -
  have h: "ascii_lower [] = []"
    by (rule ascii_lower_Nil)
  have a: "address streetlight = None \<and> ''GRAU'' \<noteq> []"
    by (simp add: streetlight_def)
  have e: "filterIncidents ascii_lower [pothole, streetlight] ''GRAU'' ''all'' = [pothole]"
    by code_simp
  have d: "pothole \<noteq> streetlight"
    by (simp add: pothole_def streetlight_def)
  show ?thesis
    using h a e d
      filterIncidents_text [where toLowerCase = ascii_lower and i = pothole
        and L = "[pothole, streetlight]" and s = "''GRAU''", OF h]
      filterIncidents_text [where toLowerCase = ascii_lower and i = streetlight
        and L = "[pothole, streetlight]" and s = "''GRAU''", OF h]
    by simp
qed

text \<open>
  Claim C5. The text filter (status at \<open>all\<close>) and the status filter (empty term) commute:
  applied one after the other in either order they give the same list, which is the list
  \<open>filterIncidents\<close> gives for both criteria at once, the incidents that pass both tests.
\<close>

theorem filterIncidents_commute:
  "filterIncidents toLowerCase (filterIncidents toLowerCase L s ''all'') [] sf =
     filterIncidents toLowerCase (filterIncidents toLowerCase L [] sf) s ''all'' \<and>
   filterIncidents toLowerCase (filterIncidents toLowerCase L s ''all'') [] sf =
     filterIncidents toLowerCase L s sf \<and>
   filterIncidents toLowerCase L s sf =
     filter (\<lambda>i. (s = [] \<or> matchesSearch toLowerCase s i) \<and>
                 (sf = ''all'' \<or> status_string (status i) = sf)) L"
  by (auto simp add: filterIncidents_filter intro: filter_cong)

text \<open>
  Claim C6. The empty search term with the status filter \<open>all\<close> returns the list itself.
\<close>

theorem filterIncidents_identity: "filterIncidents toLowerCase L [] ''all'' = L"
  by (simp add: filterIncidents_filter)

text \<open>
  Claim C7. For each of the four status values, the empty search term and that status
  return exactly the incidents with that status, in the order of the list; for all
  criteria the result is a subsequence of the list. Of three incidents with the statuses
  pending, resolved, pending the status filter \<open>pending\<close> returns the first and the third.
\<close>

theorem filterIncidents_status:
  "filterIncidents toLowerCase L [] (status_string v) = filter (\<lambda>i. status i = v) L \<and>
   subseq (filterIncidents toLowerCase L s sf) L \<and>
   filterIncidents toLowerCase
     [a\<lparr>status := pending\<rparr>, b\<lparr>status := resolved\<rparr>, c\<lparr>status := pending\<rparr>] [] ''pending'' =
     [a\<lparr>status := pending\<rparr>, c\<lparr>status := pending\<rparr>]"
  by (simp add: filterIncidents_filter status_string_not_all status_string_inj)

section \<open>Properties of the rendering\<close>

lemma render_row_viewer_not_authority:
  "map_option role viewer \<noteq> Some authority \<Longrightarrow>
   render_row formatDate viewer i = render_row formatDate viewer (i\<lparr>profiles := None\<rparr>)"
  by (cases viewer) (simp_all add: render_row_def)

lemma render_row_authority_shows_reporter:
  "viewer = Some p \<Longrightarrow> role p = authority \<Longrightarrow> profiles i = Some reporter \<Longrightarrow>
   full_name reporter \<in> set (texts (render_row formatDate viewer i))"
  by (simp add: render_row_def)

text \<open>
  Claim C8. The rendered row of an incident depends on the joined reporter profile only
  for a viewer whose role is \<open>authority\<close>: for an absent viewer profile and for a citizen
  two incidents that differ in the reporter alone render to the same output, and where
  the outputs for two reporters differ the viewer is an authority.
\<close>

theorem render_row_reporter_hidden:
  "(viewer = None \<or> map_option role viewer = Some citizen \<longrightarrow>
      render_row formatDate viewer (i\<lparr>profiles := ra\<rparr>) =
      render_row formatDate viewer (i\<lparr>profiles := rb\<rparr>)) \<and>
   (render_row formatDate viewer (i\<lparr>profiles := ra\<rparr>) \<noteq>
      render_row formatDate viewer (i\<lparr>profiles := rb\<rparr>) \<longrightarrow>
      map_option role viewer = Some authority)"
proof -
  have hidden: "render_row formatDate viewer (i\<lparr>profiles := ra\<rparr>) =
      render_row formatDate viewer (i\<lparr>profiles := rb\<rparr>)"
    if na: "map_option role viewer \<noteq> Some authority"
  proof -
    have "render_row formatDate viewer (i\<lparr>profiles := ra\<rparr>) =
          render_row formatDate viewer (i\<lparr>profiles := None\<rparr>)"
      using render_row_viewer_not_authority [OF na, of formatDate "i\<lparr>profiles := ra\<rparr>"]
      by simp
    moreover have "render_row formatDate viewer (i\<lparr>profiles := rb\<rparr>) =
          render_row formatDate viewer (i\<lparr>profiles := None\<rparr>)"
      using render_row_viewer_not_authority [OF na, of formatDate "i\<lparr>profiles := rb\<rparr>"]
      by simp
    ultimately show ?thesis by simp
  qed
  show ?thesis
  proof (intro conjI impI)
    assume "viewer = None \<or> map_option role viewer = Some citizen"
    then have "map_option role viewer \<noteq> Some authority" by auto
    then show "render_row formatDate viewer (i\<lparr>profiles := ra\<rparr>) =
      render_row formatDate viewer (i\<lparr>profiles := rb\<rparr>)"
      by (rule hidden)
  next
    assume "render_row formatDate viewer (i\<lparr>profiles := ra\<rparr>) \<noteq>
      render_row formatDate viewer (i\<lparr>profiles := rb\<rparr>)"
    then show "map_option role viewer = Some authority"
      using hidden by blast
  qed
qed

theorem render_row_reporter_hidden_witness:
  "(Some luis = None \<or> map_option role (Some luis) = Some citizen) \<and>
   render_row id (Some luis) (pothole\<lparr>profiles := Some ana\<rparr>) =
   render_row id (Some luis) (pothole\<lparr>profiles := Some luis\<rparr>) \<and>
   render_row id (Some ana) (pothole\<lparr>profiles := Some ana\<rparr>) \<noteq>
   render_row id (Some ana) (pothole\<lparr>profiles := Some luis\<rparr>) \<and>
   map_option role (Some ana) = Some authority"
proof -
  have h: "Some luis = None \<or> map_option role (Some luis) = Some citizen"
    by (simp add: luis_def)
  have d: "render_row id (Some ana) (pothole\<lparr>profiles := Some ana\<rparr>) \<noteq>
           render_row id (Some ana) (pothole\<lparr>profiles := Some luis\<rparr>)"
    by (simp add: render_row_def ana_def luis_def)
  show ?thesis
    using h d
      render_row_reporter_hidden [where viewer = "Some luis" and formatDate = id and i = pothole
        and ra = "Some ana" and rb = "Some luis"]
      render_row_reporter_hidden [where viewer = "Some ana" and formatDate = id and i = pothole
        and ra = "Some ana" and rb = "Some luis"]
    by blast
qed

end
